theory Spec2Isabelle
  imports Complex_Main
begin

section \<open>AIris-Cab front end: the cab and flight comparison workflows\<close>

text \<open>
  The development embeds the event handlers of \<^verbatim>\<open>frontend/src/App.tsx\<close> and
  \<^verbatim>\<open>frontend/src/components/FlightComparison.tsx\<close>. A React component is a record
  of its \<^verbatim>\<open>useState\<close> cells; a handler is a function from the record to the updated
  record. The reply of an awaited HTTP call is an argument of the handler, so every
  statement holds for every backend. Two ghost fields record what the handler sent
  (\<open>requests\<close>) and what it wrote with \<^verbatim>\<open>console.error\<close> (\<open>console\<close>).

  Strings are \<open>char list\<close>. A finite JavaScript number is modelled by the rational it
  denotes: rounding to binary64, overflow and the sign of zero are not modelled.
\<close>

subsection \<open>Characters, digits and decimal rendering\<close>

definition is_digit :: "char \<Rightarrow> bool" where
  "is_digit c \<longleftrightarrow> 48 \<le> (of_char c :: nat) \<and> (of_char c :: nat) \<le> 57"

definition digit_value :: "char \<Rightarrow> nat" where
  "digit_value c = of_char c - 48"


text \<open>The value of a string of decimal digits, most significant digit first.\<close>

definition digits_val :: "string \<Rightarrow> nat" where
  "digits_val ds = foldl (\<lambda>acc c. 10 * acc + digit_value c) 0 ds"





subsection \<open>Arithmetic of finite numbers\<close>



subsection \<open>The cab flow's \<^verbatim>\<open>formatDuration\<close>\<close>


subsection \<open>Numbers that need not be finite\<close>

text \<open>
  \<^verbatim>\<open>parseFloat\<close> and \<^verbatim>\<open>/\<close> can produce the three values of a JavaScript number
  that are not finite.
\<close>

datatype jsnum = Fin rat | PosInf | NegInf | NaN


subsection \<open>The built-ins \<^verbatim>\<open>parseFloat\<close>, \<^verbatim>\<open>parseInt\<close> and \<^verbatim>\<open>toFixed\<close>\<close>

text \<open>The white space and line terminators of ECMAScript among the 8-bit characters.\<close>

definition is_whitespace :: "char \<Rightarrow> bool" where
  "is_whitespace c \<longleftrightarrow> (of_char c :: nat) \<in> {9, 10, 11, 12, 13, 32, 160}"

definition is_sign :: "char \<Rightarrow> bool" where
  "is_sign c \<longleftrightarrow> c = CHR ''+'' \<or> c = CHR ''-''"

text \<open>
  The exponent part \<^verbatim>\<open>[eE][+-]?[0-9]+\<close> at the head of a string: its value, or \<open>0\<close>
  when the string does not start with a complete exponent part.
\<close>

definition scan_exponent :: "string \<Rightarrow> int" where
  "scan_exponent r =
     (if r \<noteq> [] \<and> (hd r = CHR ''e'' \<or> hd r = CHR ''E'')
      then (let r' = tl r;
                neg = (r' \<noteq> [] \<and> hd r' = CHR ''-'');
                ds = takeWhile is_digit (if r' \<noteq> [] \<and> is_sign (hd r') then tl r' else r')
            in if ds = [] then 0
               else if neg then - int (digits_val ds) else int (digits_val ds))
      else 0)"

definition scale10 :: "rat \<Rightarrow> int \<Rightarrow> rat" where
  "scale10 m e = (if 0 \<le> e then m * 10 ^ nat e else m / 10 ^ nat (- e))"

text \<open>
  \<^verbatim>\<open>parseFloat(s)\<close>: leading white space is dropped, then the longest prefix that is
  a \<^verbatim>\<open>StrDecimalLiteral\<close> (an optional sign, then \<^verbatim>\<open>Infinity\<close> or decimal digits with an
  optional fraction and an optional exponent) is read; the rest of the string is
  ignored. Without such a prefix the result is \<open>NaN\<close>.
\<close>

definition parseFloat :: "string \<Rightarrow> jsnum" where
  "parseFloat s =
     (let t = dropWhile is_whitespace s;
          neg = (t \<noteq> [] \<and> hd t = CHR ''-'');
          u = (if t \<noteq> [] \<and> is_sign (hd t) then tl t else t)
      in if take 8 u = ''Infinity'' then (if neg then NegInf else PosInf)
         else
           let ip = takeWhile is_digit u;
               r1 = dropWhile is_digit u;
               dot = (r1 \<noteq> [] \<and> hd r1 = CHR ''.'');
               fp = (if dot then takeWhile is_digit (tl r1) else []);
               r2 = (if dot then dropWhile is_digit (tl r1) else r1);
               mag = scale10 (of_nat (digits_val ip) + of_nat (digits_val fp) / 10 ^ length fp)
                       (scan_exponent r2)
           in if ip = [] \<and> fp = [] then NaN
              else Fin (if neg then - mag else mag))"

definition is_hex_digit :: "char \<Rightarrow> bool" where
  "is_hex_digit c \<longleftrightarrow>
     is_digit c \<or> (65 \<le> (of_char c :: nat) \<and> (of_char c :: nat) \<le> 70)
               \<or> (97 \<le> (of_char c :: nat) \<and> (of_char c :: nat) \<le> 102)"

definition hex_digit_value :: "char \<Rightarrow> nat" where
  "hex_digit_value c =
     (if is_digit c then of_char c - 48
      else if (of_char c :: nat) \<le> 70 then of_char c - 55
      else of_char c - 87)"

definition hex_val :: "string \<Rightarrow> nat" where
  "hex_val ds = foldl (\<lambda>acc c. 16 * acc + hex_digit_value c) 0 ds"

text \<open>
  \<^verbatim>\<open>parseInt(s)\<close> without a radix: leading white space and a sign are dropped, a
  prefix \<^verbatim>\<open>0x\<close> or \<^verbatim>\<open>0X\<close> selects radix 16, otherwise the radix is 10; the longest
  prefix of digits of the radix is read. \<open>None\<close> is \<open>NaN\<close> (no digit was read).
\<close>

definition parseInt :: "string \<Rightarrow> int option" where
  "parseInt s =
     (let t = dropWhile is_whitespace s;
          neg = (t \<noteq> [] \<and> hd t = CHR ''-'');
          u = (if t \<noteq> [] \<and> is_sign (hd t) then tl t else t);
          hex = (take 2 u = ''0x'' \<or> take 2 u = ''0X'');
          z = (if hex then takeWhile is_hex_digit (drop 2 u) else takeWhile is_digit u);
          v = (if hex then hex_val z else digits_val z)
      in if z = [] then None
         else Some (if neg then - int v else int v))"


subsection \<open>The phone-number pattern\<close>

text \<open>
  A pattern of the shape \<^verbatim>\<open>^c1{lo1,hi1} c2{lo2,hi2} ... $\<close> is a list of character
  classes, each with the bounds of its repetition; a class without a quantifier has
  the bounds \<open>1, 1\<close>. Both anchors are part of the match: the whole string must be
  consumed (a JavaScript \<^verbatim>\<open>$\<close> without the \<^verbatim>\<open>m\<close> flag matches at the end of the input
  only).
\<close>

type_synonym rx_item = "(char \<Rightarrow> bool) \<times> nat \<times> nat"

fun rx_match :: "rx_item list \<Rightarrow> string \<Rightarrow> bool" where
  "rx_match [] s = (s = [])"
| "rx_match ((P, lo, hi) # r) s =
     list_ex (\<lambda>k. k \<le> length s \<and> list_all P (take k s) \<and> rx_match r (drop k s))
       [lo..<Suc hi]"

definition is_nonzero_digit :: "char \<Rightarrow> bool" where
  "is_nonzero_digit c \<longleftrightarrow> 49 \<le> (of_char c :: nat) \<and> (of_char c :: nat) \<le> 57"

text \<open>The literal \<^verbatim>\<open>/^\+[1-9]\d{10,14}$/\<close> of \<^verbatim>\<open>trackRoute\<close>.\<close>

definition phone_regex :: "rx_item list" where
  "phone_regex = [((\<lambda>c. c = CHR ''+''), 1, 1), (is_nonzero_digit, 1, 1), (is_digit, 10, 14)]"

subsection \<open>Data of the cab flow\<close>

record PriceEstimate =
  service :: string
  price_estimate :: string
  duration :: rat
  distance :: rat
  est_pickup :: string
  est_dropoff :: string
  app_url :: string
  web_url :: string
  recommended :: bool
  capacity :: string

record TrackedRoute =
  route_id :: int
  route_pickup :: string
  route_dropoff :: string
  route_passenger_count :: int
  route_phone_number :: string
  route_target_price :: rat
  is_active :: bool
  created_at :: string

text \<open>The JSON bodies of \<^verbatim>\<open>POST /compare-prices\<close> and \<^verbatim>\<open>POST /track-route\<close>.\<close>

record compare_body =
  pickup_address :: string
  dropoff_address :: string
  passenger_count :: int

record track_body = compare_body +
  phone_number :: string
  target_price :: jsnum

text \<open>
  The calls a handler can issue. \<open>GET_tracked_routes\<close> carries the phone number that
  is placed in the path, before \<^verbatim>\<open>encodeURIComponent\<close>.
\<close>

datatype request =
    POST_compare_prices compare_body
  | POST_track_route track_body
  | GET_tracked_routes string
  | DELETE_tracked_route int
  | GET_cities_autocomplete string

text \<open>The outcome of an awaited call: the promise rejects, or resolves with the data.\<close>

datatype 'a reply = Rejected | Resolved 'a

datatype severity = Success | Error

record snackbar_state =
  sb_open :: bool
  message :: string
  severity :: severity

record field_errors =
  pickup_error :: "string option"
  dropoff_error :: "string option"

record app_state =
  currentTab :: string
  pickup :: string
  dropoff :: string
  passengerCount :: int
  estimates :: "PriceEstimate list"
  loading :: bool
  pickupOptions :: "string list"
  dropoffOptions :: "string list"
  snackbar :: snackbar_state
  phoneNumber :: string
  targetPrice :: "jsnum option"
  trackedRoutes :: "TrackedRoute list"
  showTrackedRoutes :: bool
  errors :: field_errors
  requests :: "request list"
  console :: "string list"

definition initial_state :: app_state where
  "initial_state =
     \<lparr> currentTab = ''cab'', pickup = [], dropoff = [], passengerCount = 1,
       estimates = [], loading = False, pickupOptions = [], dropoffOptions = [],
       snackbar = \<lparr> sb_open = False, message = [], severity = Success \<rparr>,
       phoneNumber = [], targetPrice = None, trackedRoutes = [],
       showTrackedRoutes = False,
       errors = \<lparr> pickup_error = None, dropoff_error = None \<rparr>,
       requests = [], console = [] \<rparr>"

definition setSnackbar :: "string \<Rightarrow> severity \<Rightarrow> app_state \<Rightarrow> app_state" where
  "setSnackbar m sev st = st\<lparr> snackbar := \<lparr> sb_open = True, message = m, severity = sev \<rparr> \<rparr>"

definition send :: "request \<Rightarrow> app_state \<Rightarrow> app_state" where
  "send rq st = st\<lparr> requests := requests st @ [rq] \<rparr>"

definition console_error :: "string \<Rightarrow> app_state \<Rightarrow> app_state" where
  "console_error m st = st\<lparr> console := console st @ [m] \<rparr>"

definition handleSnackbarClose :: "app_state \<Rightarrow> app_state" where
  "handleSnackbarClose st = st\<lparr> snackbar := (snackbar st)\<lparr> sb_open := False \<rparr> \<rparr>"

subsection \<open>Route tracking\<close>

definition invalid_phone_message :: string where
  "invalid_phone_message =
     ''Please enter a valid phone number in E.164 format (e.g., +1XXXXXXXXXX)''"

definition fetch_failed_message :: string where
  "fetch_failed_message =
     ''Failed to fetch tracked routes. Please make sure your phone number is in E.164 format (+1XXXXXXXXXX)''"

definition tracking_started_message :: string where
  "tracking_started_message =
     ''Route tracking started! We'' @ [CHR 0x27] @
     ''ll notify you when the price drops below your target.''"

text \<open>\<^verbatim>\<open>s.replace('$', '')\<close>: the first occurrence of the character is removed.\<close>

fun replace_first :: "char \<Rightarrow> string \<Rightarrow> string" where
  "replace_first c [] = []"
| "replace_first c (x # xs) = (if x = c then xs else x # replace_first c xs)"

text \<open>
  \<^verbatim>\<open>fetchTrackedRoutes\<close> (App.tsx, lines 114 to 130). An empty phone number returns at
  once. Otherwise the number, with \<^verbatim>\<open>+\<close> put in front unless it starts with one, is
  requested; no pattern is checked.
\<close>

definition fetchTrackedRoutes :: "TrackedRoute list reply \<Rightarrow> app_state \<Rightarrow> app_state" where
  "fetchTrackedRoutes r st =
     (if phoneNumber st = [] then st
      else
        let formattedNumber =
              (if hd (phoneNumber st) = CHR ''+'' then phoneNumber st
               else CHR ''+'' # phoneNumber st);
            st1 = send (GET_tracked_routes formattedNumber) st
        in case r of
             Resolved d \<Rightarrow> st1\<lparr> trackedRoutes := d \<rparr>
           | Rejected \<Rightarrow>
               setSnackbar fetch_failed_message Error
                 (console_error ''Failed to fetch tracked routes:'' st1))"


text \<open>
  \<^verbatim>\<open>trackRoute\<close> (App.tsx, lines 77 to 112). \<open>track_request\<close> is the body of its
  POST (lines 89 to 95); \<open>r1\<close> is the outcome of the POST, \<open>r2\<close> that of the GET of
  the refresh, which runs only after a successful POST.
\<close>

definition track_request :: "PriceEstimate \<Rightarrow> app_state \<Rightarrow> track_body" where
  "track_request estimate st =
     \<lparr> pickup_address = est_pickup estimate,
       dropoff_address = est_dropoff estimate,
       passenger_count = passengerCount st,
       phone_number = phoneNumber st,
       target_price = parseFloat (replace_first (CHR ''$'') (price_estimate estimate)) \<rparr>"

definition trackRoute ::
  "unit reply \<Rightarrow> TrackedRoute list reply \<Rightarrow> PriceEstimate \<Rightarrow> app_state \<Rightarrow> app_state" where
  "trackRoute r1 r2 estimate st =
     (if \<not> rx_match phone_regex (phoneNumber st)
      then setSnackbar invalid_phone_message Error st
      else
        let st1 = send (POST_track_route (track_request estimate st)) st
        in case r1 of
             Resolved _ \<Rightarrow>
               fetchTrackedRoutes r2
                 (setSnackbar tracking_started_message Success st1)
           | Rejected \<Rightarrow> setSnackbar ''Failed to start route tracking'' Error st1)"

text \<open>\<^verbatim>\<open>deleteTrackedRoute\<close> (App.tsx, lines 132 to 148).\<close>

definition deleteTrackedRoute ::
  "unit reply \<Rightarrow> TrackedRoute list reply \<Rightarrow> int \<Rightarrow> app_state \<Rightarrow> app_state" where
  "deleteTrackedRoute r1 r2 routeId st =
     (let st1 = send (DELETE_tracked_route routeId) st
      in case r1 of
           Resolved _ \<Rightarrow>
             fetchTrackedRoutes r2 (setSnackbar ''Route tracking stopped and deleted'' Success st1)
         | Rejected \<Rightarrow> setSnackbar ''Failed to delete tracked route'' Error st1)"

text \<open>
  The effect of lines 151 to 155, run after a render in which \<^verbatim>\<open>phoneNumber\<close> or
  \<^verbatim>\<open>showTrackedRoutes\<close> changed.
\<close>

definition tracked_routes_effect :: "TrackedRoute list reply \<Rightarrow> app_state \<Rightarrow> app_state" where
  "tracked_routes_effect r st =
     (if phoneNumber st \<noteq> [] \<and> showTrackedRoutes st then fetchTrackedRoutes r st else st)"

subsection \<open>Price comparison\<close>

definition request_failed_message :: string where
  "request_failed_message = ''Failed to fetch price estimates''"

definition pickup_required_message :: string where
  "pickup_required_message = ''Please enter a pickup location''"

definition dropoff_required_message :: string where
  "dropoff_required_message = ''Please enter a dropoff location''"

text \<open>
  \<^verbatim>\<open>comparePrices\<close> (App.tsx, lines 166 to 194). The error object is reset, then each
  check sets its own field and returns.
\<close>

definition comparePrices :: "PriceEstimate list reply \<Rightarrow> app_state \<Rightarrow> app_state" where
  "comparePrices r st =
     (let st0 = st\<lparr> errors := \<lparr> pickup_error = None, dropoff_error = None \<rparr> \<rparr>
      in if pickup st = []
         then st0\<lparr> errors := (errors st0)\<lparr> pickup_error := Some pickup_required_message \<rparr> \<rparr>
         else if dropoff st = []
         then st0\<lparr> errors := (errors st0)\<lparr> dropoff_error := Some dropoff_required_message \<rparr> \<rparr>
         else
           let st1 = send (POST_compare_prices
                       \<lparr> pickup_address = pickup st,
                         dropoff_address = dropoff st,
                         passenger_count = passengerCount st \<rparr>)
                       (st0\<lparr> loading := True \<rparr>);
               st2 = (case r of
                        Resolved d \<Rightarrow> st1\<lparr> estimates := d \<rparr>
                      | Rejected \<Rightarrow> setSnackbar request_failed_message Error st1)
           in st2\<lparr> loading := False \<rparr>)"

subsection \<open>Input fields of the cab flow\<close>

text \<open>The \<^verbatim>\<open>onInputChange\<close> handlers of the two location fields (lines 227 to 237, 256 to 266).\<close>

definition pickup_onInputChange :: "string list reply \<Rightarrow> string \<Rightarrow> app_state \<Rightarrow> app_state" where
  "pickup_onInputChange r newValue st =
     (let st1 = st\<lparr> pickup := newValue \<rparr>
      in if length newValue \<ge> 1
         then (case r of
                 Resolved d \<Rightarrow> (send (GET_cities_autocomplete newValue) st1)\<lparr> pickupOptions := d \<rparr>
               | Rejected \<Rightarrow>
                   console_error ''Failed to fetch city suggestions:''
                     (send (GET_cities_autocomplete newValue) st1))
         else st1)"

definition dropoff_onInputChange :: "string list reply \<Rightarrow> string \<Rightarrow> app_state \<Rightarrow> app_state" where
  "dropoff_onInputChange r newValue st =
     (let st1 = st\<lparr> dropoff := newValue \<rparr>
      in if length newValue \<ge> 1
         then (case r of
                 Resolved d \<Rightarrow> (send (GET_cities_autocomplete newValue) st1)\<lparr> dropoffOptions := d \<rparr>
               | Rejected \<Rightarrow>
                   console_error ''Failed to fetch city suggestions:''
                     (send (GET_cities_autocomplete newValue) st1))
         else st1)"

text \<open>
  The passenger field (line 286):
  \<^verbatim>\<open>setPassengerCount(Math.max(1, Math.min(7, parseInt(e.target.value) || 1)))\<close>.
  The operator \<^verbatim>\<open>||\<close> replaces \<open>NaN\<close> and \<open>0\<close>, the two falsy numbers, by its right
  operand.
\<close>

definition or_one :: "int option \<Rightarrow> int" where
  "or_one v = (case v of None \<Rightarrow> 1 | Some n \<Rightarrow> if n = 0 then 1 else n)"

definition passengerCount_onChange :: "string \<Rightarrow> app_state \<Rightarrow> app_state" where
  "passengerCount_onChange v st = st\<lparr> passengerCount := max 1 (min 7 (or_one (parseInt v))) \<rparr>"

text \<open>
  The phone field (line 295) and the toggle of the tracked-routes panel (line 319),
  each followed by the effect when the state it watches has changed.
\<close>

definition phoneNumber_onChange :: "TrackedRoute list reply \<Rightarrow> string \<Rightarrow> app_state \<Rightarrow> app_state" where
  "phoneNumber_onChange r v st =
     (if v = phoneNumber st then st else tracked_routes_effect r (st\<lparr> phoneNumber := v \<rparr>))"

definition toggleTrackedRoutes :: "TrackedRoute list reply \<Rightarrow> app_state \<Rightarrow> app_state" where
  "toggleTrackedRoutes r st =
     tracked_routes_effect r (st\<lparr> showTrackedRoutes := \<not> showTrackedRoutes st \<rparr>)"

text \<open>
  The target-price field (line 302) stores \<^verbatim>\<open>''\<close> for an empty input and
  \<^verbatim>\<open>Number(e.target.value)\<close> otherwise; \<open>n\<close> stands for that number.
\<close>

definition targetPrice_onChange :: "jsnum \<Rightarrow> string \<Rightarrow> app_state \<Rightarrow> app_state" where
  "targetPrice_onChange n v st = st\<lparr> targetPrice := (if v = [] then None else Some n) \<rparr>"

text \<open>
  The states the cab tab can be in: the initial state, and any state that a handler
  produces from a reachable one under any replies of the backend. The guards are the
  conditions under which the page renders the control: the cab tab is shown, the
  compare button is enabled, the track button belongs to a displayed estimate and is
  rendered only with a phone number and a target price, the delete button belongs to
  a listed route of the visible panel.
\<close>

inductive reachable :: "app_state \<Rightarrow> bool" where
  init: "reachable initial_state"
| tab: "reachable st \<Longrightarrow> reachable (st\<lparr> currentTab := t \<rparr>)"
| close: "reachable st \<Longrightarrow> reachable (handleSnackbarClose st)"
| pickup_input:
    "reachable st \<Longrightarrow> currentTab st = ''cab'' \<Longrightarrow> reachable (pickup_onInputChange r v st)"
| dropoff_input:
    "reachable st \<Longrightarrow> currentTab st = ''cab'' \<Longrightarrow> reachable (dropoff_onInputChange r v st)"
| passenger_input:
    "reachable st \<Longrightarrow> currentTab st = ''cab'' \<Longrightarrow> reachable (passengerCount_onChange v st)"
| phone_input:
    "reachable st \<Longrightarrow> currentTab st = ''cab'' \<Longrightarrow> reachable (phoneNumber_onChange rr v st)"
| target_input:
    "reachable st \<Longrightarrow> currentTab st = ''cab'' \<Longrightarrow> reachable (targetPrice_onChange n v st)"
| toggle:
    "reachable st \<Longrightarrow> currentTab st = ''cab'' \<Longrightarrow> reachable (toggleTrackedRoutes rr st)"
| compare:
    "reachable st \<Longrightarrow> currentTab st = ''cab'' \<Longrightarrow> \<not> loading st
       \<Longrightarrow> reachable (comparePrices re st)"
| track:
    "reachable st \<Longrightarrow> currentTab st = ''cab'' \<Longrightarrow> e \<in> set (estimates st)
       \<Longrightarrow> phoneNumber st \<noteq> [] \<Longrightarrow> targetPrice st \<noteq> None
       \<Longrightarrow> reachable (trackRoute r1 rr e st)"
| delete:
    "reachable st \<Longrightarrow> currentTab st = ''cab'' \<Longrightarrow> showTrackedRoutes st
       \<Longrightarrow> phoneNumber st \<noteq> [] \<Longrightarrow> t \<in> set (trackedRoutes st)
       \<Longrightarrow> reachable (deleteTrackedRoute r1 rr (route_id t) st)"

subsection \<open>The rate per mile shown on an estimate card\<close>



subsection \<open>The flight flow\<close>

record FlightEstimate =
  airline :: string
  price :: rat
  departure :: string
  arrival :: string
  fl_duration :: rat
  stops :: int
  fl_recommended :: bool

text \<open>A \<^verbatim>\<open>Date\<close> is its time value in milliseconds; \<open>None\<close> is \<^verbatim>\<open>null\<close>.\<close>

record flight_state =
  origin :: string
  destination :: string
  departureDate :: "int option"
  returnDate :: "int option"
  passengers :: int
  cabinClass :: string
  fl_estimates :: "FlightEstimate list"
  fl_loading :: bool
  cityOptions :: "string list"
  fl_snackbar :: snackbar_state
  fl_requests :: "request list"
  fl_console :: "string list"

datatype city_field = origin_field | destination_field

definition city_failed_message :: string where
  "city_failed_message = ''Failed to fetch city suggestions. Please try again.''"

text \<open>
  \<^verbatim>\<open>handleCitySearch\<close> (FlightComparison.tsx): the argument \<open>type\<close> is not used, the
  one list \<^verbatim>\<open>cityOptions\<close> is written, and a rejected request opens the snack bar.
\<close>

definition handleCitySearch :: "string list reply \<Rightarrow> string \<Rightarrow> city_field \<Rightarrow> flight_state \<Rightarrow> flight_state" where
  "handleCitySearch r query type st =
     (if length query \<ge> 2
      then
        let st1 = st\<lparr> fl_requests := fl_requests st @ [GET_cities_autocomplete query] \<rparr>
        in case r of
             Resolved d \<Rightarrow> st1\<lparr> cityOptions := d \<rparr>
           | Rejected \<Rightarrow>
               st1\<lparr> fl_console := fl_console st1 @ [''Failed to fetch city suggestions:''],
                    fl_snackbar := \<lparr> sb_open = True, message = city_failed_message,
                                     severity = Error \<rparr> \<rparr>
      else st)"

definition origin_onInputChange :: "string list reply \<Rightarrow> string \<Rightarrow> flight_state \<Rightarrow> flight_state" where
  "origin_onInputChange r newValue st = handleCitySearch r newValue origin_field (st\<lparr> origin := newValue \<rparr>)"

definition destination_onInputChange :: "string list reply \<Rightarrow> string \<Rightarrow> flight_state \<Rightarrow> flight_state" where
  "destination_onInputChange r newValue st =
     handleCitySearch r newValue destination_field (st\<lparr> destination := newValue \<rparr>)"

text \<open>The \<^verbatim>\<open>options\<close> property of the two \<^verbatim>\<open>Autocomplete\<close> fields.\<close>

definition origin_options :: "flight_state \<Rightarrow> string list" where
  "origin_options st = cityOptions st"

definition destination_options :: "flight_state \<Rightarrow> string list" where
  "destination_options st = cityOptions st"

definition initial_flight_state :: flight_state where
  "initial_flight_state =
     \<lparr> origin = [], destination = [], departureDate = None, returnDate = None,
       passengers = 1, cabinClass = ''economy'', fl_estimates = [], fl_loading = False,
       cityOptions = [],
       fl_snackbar = \<lparr> sb_open = False, message = [], severity = Success \<rparr>,
       fl_requests = [], fl_console = [] \<rparr>"

subsection \<open>Notions used in the statements\<close>


text \<open>Every \<^verbatim>\<open>/compare-prices\<close> body of a list of calls has a passenger count from 1 to 7.\<close>

definition compare_bodies_in_range :: "request list \<Rightarrow> bool" where
  "compare_bodies_in_range rqs =
     list_all (\<lambda>rq. case rq of
                       POST_compare_prices b \<Rightarrow> 1 \<le> passenger_count b \<and> passenger_count b \<le> 7
                     | _ \<Rightarrow> True) rqs"

definition passenger_inv :: "app_state \<Rightarrow> bool" where
  "passenger_inv st \<longleftrightarrow>
     1 \<le> passengerCount st \<and> passengerCount st \<le> 7 \<and> compare_bodies_in_range (requests st)"

text \<open>An estimate and some states for the closed examples.\<close>

definition example_estimate :: PriceEstimate where
  "example_estimate =
     \<lparr> service = ''UberX'', price_estimate = ''$23.50'', duration = 3661, distance = 47 / 10,
       est_pickup = ''Manhattan'', est_dropoff = ''Brooklyn'',
       app_url = ''uber://'', web_url = ''https://m.uber.com'', recommended = True,
       capacity = ''4 seats'' \<rparr>"

definition valid_phone_state :: app_state where
  "valid_phone_state = initial_state\<lparr> phoneNumber := ''+12345678901'' \<rparr>"

definition bare_phone_state :: app_state where
  "bare_phone_state = initial_state\<lparr> phoneNumber := ''12345'' \<rparr>"

definition filled_state :: app_state where
  "filled_state = initial_state\<lparr> pickup := ''Manhattan'', dropoff := ''Brooklyn'',
                    estimates := [example_estimate] \<rparr>"

text \<open>
  A session: both locations are typed (the suggestion requests fail), 9 passengers are
  entered, prices are compared.
\<close>

definition example_session :: app_state where
  "example_session =
     comparePrices (Resolved [])
       (passengerCount_onChange ''9''
         (dropoff_onInputChange Rejected ''Brooklyn''
           (pickup_onInputChange Rejected ''Manhattan'' initial_state)))"

section \<open>Properties\<close>

subsection \<open>Duration formatting\<close>







subsection \<open>What the handlers send and keep\<close>

lemma requests_setSnackbar [simp]: "requests (setSnackbar m sev st) = requests st"
  by (simp add: setSnackbar_def)

lemma requests_console_error [simp]: "requests (console_error m st) = requests st"
  by (simp add: console_error_def)

lemma requests_send [simp]: "requests (send rq st) = requests st @ [rq]"
  by (simp add: send_def)

lemma phoneNumber_setSnackbar [simp]: "phoneNumber (setSnackbar m sev st) = phoneNumber st"
  by (simp add: setSnackbar_def)

lemma phoneNumber_send [simp]: "phoneNumber (send rq st) = phoneNumber st"
  by (simp add: send_def)

lemma passengerCount_setSnackbar [simp]:
  "passengerCount (setSnackbar m sev st) = passengerCount st"
  by (simp add: setSnackbar_def)

lemma passengerCount_console_error [simp]:
  "passengerCount (console_error m st) = passengerCount st"
  by (simp add: console_error_def)

lemma passengerCount_send [simp]: "passengerCount (send rq st) = passengerCount st"
  by (simp add: send_def)

lemma requests_fetchTrackedRoutes:
  "requests (fetchTrackedRoutes r st) =
     (if phoneNumber st = [] then requests st
      else requests st @
        [GET_tracked_routes (if hd (phoneNumber st) = CHR ''+'' then phoneNumber st
                             else CHR ''+'' # phoneNumber st)])"
  by (simp add: fetchTrackedRoutes_def Let_def split: reply.splits)

lemma passengerCount_fetchTrackedRoutes [simp]:
  "passengerCount (fetchTrackedRoutes r st) = passengerCount st"
  by (simp add: fetchTrackedRoutes_def Let_def split: reply.splits)

subsection \<open>The phone-number pattern\<close>

lemma rx_match_single:
  "rx_match ((P, 1, 1) # r) s \<longleftrightarrow> (\<exists>c cs. s = c # cs \<and> P c \<and> rx_match r cs)"
  by (cases s) auto

lemma rx_match_last:
  "rx_match [(P, lo, hi)] s \<longleftrightarrow> list_all P s \<and> lo \<le> length s \<and> length s \<le> hi"
  by (auto simp: list_ex_iff)

text \<open>
  The pattern accepts exactly the strings made of \<^verbatim>\<open>+\<close>, a digit from 1 to 9 and then
  10 to 14 digits.
\<close>

lemma phone_regex_shape:
  "rx_match phone_regex p \<longleftrightarrow>
     (\<exists>d rest. p = CHR ''+'' # d # rest \<and> is_nonzero_digit d \<and> list_all is_digit rest
        \<and> 10 \<le> length rest \<and> length rest \<le> 14)"
  unfolding phone_regex_def rx_match_single rx_match_last by auto

lemma phone_regex_plus:
  "rx_match phone_regex p \<Longrightarrow> p \<noteq> [] \<and> hd p = CHR ''+''"
  by (auto simp: phone_regex_shape)

lemma valid_phone_matches: "rx_match phone_regex ''+12345678901''"
  by code_simp

lemma bare_phone_no_match: "\<not> rx_match phone_regex ''12345''"
  by code_simp

lemma requests_trackRoute:
  "requests (trackRoute r1 r2 e st) =
     (if rx_match phone_regex (phoneNumber st)
      then requests st @ POST_track_route (track_request e st) #
             (case r1 of Resolved _ \<Rightarrow> [GET_tracked_routes (phoneNumber st)] | Rejected \<Rightarrow> [])
      else requests st)"
  by (auto simp: trackRoute_def Let_def requests_fetchTrackedRoutes
        dest: phone_regex_plus split: reply.splits)

lemma passengerCount_trackRoute [simp]:
  "passengerCount (trackRoute r1 r2 e st) = passengerCount st"
  by (simp add: trackRoute_def Let_def split: reply.splits)

text \<open>
  C1, as amended: \<open>trackRoute\<close> issues a network call if and only if the phone number
  matches \<^verbatim>\<open>^\+[1-9]\d{10,14}$\<close>; for every other phone number it only sets the
  invalid-phone-number notice. \<open>fetchTrackedRoutes\<close> does not check the pattern: it
  issues its call if and only if the phone number is not empty, for the number with
  \<^verbatim>\<open>+\<close> put in front unless it starts with one; for the empty phone number it does
  nothing, so it sets no notice either.
\<close>

theorem phone_validation_amended:
  "(requests (trackRoute r1 r2 e st) \<noteq> requests st \<longleftrightarrow> rx_match phone_regex (phoneNumber st))
   \<and> (\<not> rx_match phone_regex (phoneNumber st) \<longrightarrow>
        trackRoute r1 r2 e st = setSnackbar invalid_phone_message Error st)
   \<and> (requests (fetchTrackedRoutes r2 st) \<noteq> requests st \<longleftrightarrow> phoneNumber st \<noteq> [])
   \<and> (phoneNumber st = [] \<longrightarrow> fetchTrackedRoutes r2 st = st)
   \<and> (phoneNumber st \<noteq> [] \<longrightarrow>
        requests (fetchTrackedRoutes r2 st) =
          requests st @ [GET_tracked_routes
            (if hd (phoneNumber st) = CHR ''+'' then phoneNumber st
             else CHR ''+'' # phoneNumber st)])"
proof -
  have "requests (trackRoute r1 r2 e st) \<noteq> requests st \<longleftrightarrow> rx_match phone_regex (phoneNumber st)"
    by (simp add: requests_trackRoute)
  moreover have "\<not> rx_match phone_regex (phoneNumber st) \<longrightarrow>
        trackRoute r1 r2 e st = setSnackbar invalid_phone_message Error st"
    by (simp add: trackRoute_def)
  moreover have "requests (fetchTrackedRoutes r2 st) \<noteq> requests st \<longleftrightarrow> phoneNumber st \<noteq> []"
    by (simp add: requests_fetchTrackedRoutes)
  moreover have "phoneNumber st = [] \<longrightarrow> fetchTrackedRoutes r2 st = st"
    by (simp add: fetchTrackedRoutes_def)
  ultimately show ?thesis
    by (simp add: requests_fetchTrackedRoutes)
qed

theorem phone_validation_amended_witness:
  "requests (trackRoute (Resolved ()) Rejected example_estimate valid_phone_state)
     \<noteq> requests valid_phone_state
   \<and> trackRoute (Resolved ()) Rejected example_estimate bare_phone_state
     = setSnackbar invalid_phone_message Error bare_phone_state
   \<and> fetchTrackedRoutes Rejected initial_state = initial_state
   \<and> requests (fetchTrackedRoutes Rejected bare_phone_state)
     = requests bare_phone_state @ [GET_tracked_routes ''+12345'']"
proof -
  have v: "phoneNumber valid_phone_state = ''+12345678901''"
    by (simp add: valid_phone_state_def)
  have b: "phoneNumber bare_phone_state = ''12345''"
    by (simp add: bare_phone_state_def)
  have i: "phoneNumber initial_state = []"
    by (simp add: initial_state_def)
  show ?thesis
    using phone_validation_amended [of "Resolved ()" Rejected example_estimate valid_phone_state]
      phone_validation_amended [of "Resolved ()" Rejected example_estimate bare_phone_state]
      phone_validation_amended [of "Resolved ()" Rejected example_estimate initial_state]
    by (simp add: v b i valid_phone_matches bare_phone_no_match)
qed

text \<open>
  Without the amendment the statement fails for the list operation: a phone number that does not
  match the pattern is requested, with \<^verbatim>\<open>+\<close> in front, and no notice is set.
\<close>

theorem list_unvalidated_counterexample:
  "\<not> rx_match phone_regex (phoneNumber bare_phone_state)
   \<and> requests (fetchTrackedRoutes (Resolved []) bare_phone_state)
       = [GET_tracked_routes ''+12345'']
   \<and> snackbar (fetchTrackedRoutes (Resolved []) bare_phone_state)
       = \<lparr> sb_open = False, message = [], severity = Success \<rparr>"
  by (simp add: bare_phone_no_match fetchTrackedRoutes_def bare_phone_state_def
        initial_state_def send_def)

subsection \<open>City suggestions\<close>

text \<open>
  C2, as amended: in the cab flow a transport error of the city-suggestion request is
  only logged: the snack bar, the field errors and the estimates stay as they were. In
  the flight flow the error is logged and an error notice with the text
  \<open>Failed to fetch city suggestions. Please try again.\<close> is raised; the flight
  estimates stay as they were.
\<close>

theorem autocomplete_failure_amended:
  "snackbar (pickup_onInputChange Rejected q st) = snackbar st
   \<and> errors (pickup_onInputChange Rejected q st) = errors st
   \<and> estimates (pickup_onInputChange Rejected q st) = estimates st
   \<and> snackbar (dropoff_onInputChange Rejected q st) = snackbar st
   \<and> errors (dropoff_onInputChange Rejected q st) = errors st
   \<and> estimates (dropoff_onInputChange Rejected q st) = estimates st
   \<and> (length q \<ge> 1 \<longrightarrow>
        console (pickup_onInputChange Rejected q st)
          = console st @ [''Failed to fetch city suggestions:'']
        \<and> console (dropoff_onInputChange Rejected q st)
          = console st @ [''Failed to fetch city suggestions:''])
   \<and> (length q \<ge> 2 \<longrightarrow>
        fl_console (handleCitySearch Rejected q ty fs)
          = fl_console fs @ [''Failed to fetch city suggestions:'']
        \<and> fl_snackbar (handleCitySearch Rejected q ty fs)
          = \<lparr> sb_open = True, message = city_failed_message, severity = Error \<rparr>
        \<and> fl_estimates (handleCitySearch Rejected q ty fs) = fl_estimates fs)"
  by (simp add: pickup_onInputChange_def dropoff_onInputChange_def handleCitySearch_def
        Let_def send_def console_error_def)

theorem autocomplete_failure_amended_witness:
  "console (pickup_onInputChange Rejected ''Ma'' initial_state)
     = [''Failed to fetch city suggestions:'']
   \<and> snackbar (pickup_onInputChange Rejected ''Ma'' initial_state)
     = \<lparr> sb_open = False, message = [], severity = Success \<rparr>
   \<and> fl_snackbar (handleCitySearch Rejected ''Ma'' origin_field initial_flight_state)
     = \<lparr> sb_open = True, message = city_failed_message, severity = Error \<rparr>"
  using autocomplete_failure_amended [of "''Ma''" initial_state origin_field initial_flight_state]
  by (simp add: initial_state_def)

text \<open>
  Without the amendment the statement fails in the flight flow: a rejected suggestion request
  opens the snack bar with an error.
\<close>

theorem flight_autocomplete_notice_counterexample:
  "fl_snackbar (handleCitySearch Rejected ''Ma'' origin_field initial_flight_state)
     = \<lparr> sb_open = True, message = city_failed_message, severity = Error \<rparr>
   \<and> fl_snackbar initial_flight_state = \<lparr> sb_open = False, message = [], severity = Success \<rparr>"
  by (simp add: handleCitySearch_def initial_flight_state_def)

text \<open>
  C10: in the flight flow the two fields show one option list. For every query of
  length at least 2 from either field, a successful suggestion response becomes the
  option list of the origin field and of the destination field; \<open>handleCitySearch\<close>
  does the same for either value of its argument \<open>type\<close>.
\<close>

theorem shared_city_options:
  "handleCitySearch r q origin_field st = handleCitySearch r q destination_field st
   \<and> (length q \<ge> 2 \<longrightarrow>
        origin_options (handleCitySearch (Resolved d) q ty st) = d
        \<and> destination_options (handleCitySearch (Resolved d) q ty st) = d
        \<and> origin_options (origin_onInputChange (Resolved d) q st) = d
        \<and> destination_options (origin_onInputChange (Resolved d) q st) = d
        \<and> origin_options (destination_onInputChange (Resolved d) q st) = d
        \<and> destination_options (destination_onInputChange (Resolved d) q st) = d)"
  by (simp add: origin_options_def destination_options_def handleCitySearch_def
        origin_onInputChange_def destination_onInputChange_def Let_def)

theorem shared_city_options_witness:
  "origin_options (destination_onInputChange (Resolved [''Boston'', ''Bogota'']) ''Bo''
       initial_flight_state) = [''Boston'', ''Bogota'']
   \<and> destination_options (origin_onInputChange (Resolved [''Boston'', ''Bogota'']) ''Bo''
       initial_flight_state) = [''Boston'', ''Bogota'']"
  using shared_city_options [of _ "''Bo''" initial_flight_state "[''Boston'', ''Bogota'']"]
  by simp

subsection \<open>Comparing prices\<close>

lemma comparePrices_no_pickup:
  "pickup st = [] \<Longrightarrow>
     comparePrices r st =
       st\<lparr> errors := \<lparr> pickup_error = Some pickup_required_message, dropoff_error = None \<rparr> \<rparr>"
  by (simp add: comparePrices_def)

text \<open>
  C3: for every state, a compare-prices request that fails in transport leaves the
  estimate sequence exactly as it was; when the request is issued (pickup and dropoff
  are not empty) the error notice with the fixed message
  \<open>Failed to fetch price estimates\<close> is shown.
\<close>

theorem compare_failure_keeps_estimates:
  "estimates (comparePrices Rejected st) = estimates st
   \<and> (pickup st \<noteq> [] \<and> dropoff st \<noteq> [] \<longrightarrow>
        requests (comparePrices Rejected st) =
          requests st @ [POST_compare_prices
            \<lparr> pickup_address = pickup st, dropoff_address = dropoff st,
              passenger_count = passengerCount st \<rparr>]
        \<and> snackbar (comparePrices Rejected st) =
            \<lparr> sb_open = True, message = request_failed_message, severity = Error \<rparr>)"
  by (simp add: comparePrices_def Let_def send_def setSnackbar_def)

theorem compare_failure_keeps_estimates_witness:
  "estimates (comparePrices Rejected filled_state) = [example_estimate]
   \<and> requests (comparePrices Rejected filled_state) =
       [POST_compare_prices
          \<lparr> pickup_address = ''Manhattan'', dropoff_address = ''Brooklyn'', passenger_count = 1 \<rparr>]
   \<and> message (snackbar (comparePrices Rejected filled_state)) = ''Failed to fetch price estimates''"
  using compare_failure_keeps_estimates [of filled_state]
  by (simp add: filled_state_def initial_state_def request_failed_message_def)

text \<open>
  C4, as amended: if compare is submitted with both pickup and dropoff empty, then
  after the submit the error state holds the message for the pickup field and no
  message for the dropoff field, and no network call is issued.
\<close>

theorem compare_both_empty_amended:
  "pickup st = [] \<Longrightarrow> dropoff st = [] \<Longrightarrow>
     errors (comparePrices r st) =
       \<lparr> pickup_error = Some pickup_required_message, dropoff_error = None \<rparr>
     \<and> requests (comparePrices r st) = requests st"
  by (simp add: comparePrices_no_pickup)

theorem compare_both_empty_amended_witness:
  "errors (comparePrices (Resolved []) initial_state) =
     \<lparr> pickup_error = Some ''Please enter a pickup location'', dropoff_error = None \<rparr>
   \<and> requests (comparePrices (Resolved []) initial_state) = []"
proof -
  have "pickup initial_state = []" "dropoff initial_state = []" "requests initial_state = []"
    by (simp_all add: initial_state_def)
  then show ?thesis
    using compare_both_empty_amended [of initial_state "Resolved []"]
    by (simp add: pickup_required_message_def)
qed

text \<open>
  Without the amendment the statement fails: with both fields empty the dropoff field gets no
  message.
\<close>

theorem compare_both_empty_counterexample:
  "pickup initial_state = [] \<and> dropoff initial_state = []
   \<and> dropoff_error (errors (comparePrices (Resolved []) initial_state)) = None"
  by (simp add: comparePrices_def initial_state_def)

text \<open>
  C5: if compare is submitted with an empty pickup and a non-empty dropoff, then after
  the submit the error state holds the message for the pickup field, none for the
  dropoff field, and no network call is issued.
\<close>

theorem compare_empty_pickup:
  "pickup st = [] \<Longrightarrow> dropoff st \<noteq> [] \<Longrightarrow>
     pickup_error (errors (comparePrices r st)) = Some pickup_required_message
     \<and> dropoff_error (errors (comparePrices r st)) = None
     \<and> requests (comparePrices r st) = requests st"
  by (simp add: comparePrices_no_pickup)

theorem compare_empty_pickup_witness:
  "pickup_error (errors (comparePrices (Resolved [example_estimate])
       (initial_state\<lparr> dropoff := ''Brooklyn'' \<rparr>))) = Some ''Please enter a pickup location''
   \<and> dropoff_error (errors (comparePrices (Resolved [example_estimate])
       (initial_state\<lparr> dropoff := ''Brooklyn'' \<rparr>))) = None
   \<and> requests (comparePrices (Resolved [example_estimate])
       (initial_state\<lparr> dropoff := ''Brooklyn'' \<rparr>)) = []"
proof -
  have "pickup (initial_state\<lparr> dropoff := ''Brooklyn'' \<rparr>) = []"
    "dropoff (initial_state\<lparr> dropoff := ''Brooklyn'' \<rparr>) \<noteq> []"
    "requests (initial_state\<lparr> dropoff := ''Brooklyn'' \<rparr>) = []"
    by (simp_all add: initial_state_def)
  then show ?thesis
    using compare_empty_pickup [of "initial_state\<lparr> dropoff := ''Brooklyn'' \<rparr>"
        "Resolved [example_estimate]"]
    by (simp add: pickup_required_message_def)
qed

subsection \<open>Reading a decimal numeral\<close>















subsection \<open>The target price of a tracked route\<close>



subsection \<open>The rate per mile\<close>





subsection \<open>The passenger count\<close>

lemma in_range_append [simp]:
  "compare_bodies_in_range (xs @ ys) \<longleftrightarrow> compare_bodies_in_range xs \<and> compare_bodies_in_range ys"
  by (simp add: compare_bodies_in_range_def)

lemma in_range_simps [simp]:
  "compare_bodies_in_range []"
  "compare_bodies_in_range [GET_tracked_routes p]"
  "compare_bodies_in_range [GET_cities_autocomplete q]"
  "compare_bodies_in_range [DELETE_tracked_route i]"
  "compare_bodies_in_range [POST_track_route tb]"
  "compare_bodies_in_range [POST_compare_prices b] \<longleftrightarrow> 1 \<le> passenger_count b \<and> passenger_count b \<le> 7"
  by (simp_all add: compare_bodies_in_range_def)

lemma inv_fetch: "passenger_inv st \<Longrightarrow> passenger_inv (fetchTrackedRoutes r st)"
  by (simp add: passenger_inv_def requests_fetchTrackedRoutes)

lemma inv_setSnackbar: "passenger_inv st \<Longrightarrow> passenger_inv (setSnackbar m s st)"
  by (simp add: passenger_inv_def)

lemma inv_send:
  "passenger_inv st \<Longrightarrow> compare_bodies_in_range [rq] \<Longrightarrow> passenger_inv (send rq st)"
  by (simp add: passenger_inv_def)

lemma inv_effect: "passenger_inv st \<Longrightarrow> passenger_inv (tracked_routes_effect r st)"
  by (simp add: tracked_routes_effect_def inv_fetch)

lemma inv_phoneNumber_update: "passenger_inv st \<Longrightarrow> passenger_inv (st\<lparr> phoneNumber := v \<rparr>)"
  by (simp add: passenger_inv_def)

lemma inv_show_update: "passenger_inv st \<Longrightarrow> passenger_inv (st\<lparr> showTrackedRoutes := v \<rparr>)"
  by (simp add: passenger_inv_def)

lemma inv_trackRoute: "passenger_inv st \<Longrightarrow> passenger_inv (trackRoute r1 r2 e st)"
  by (simp add: trackRoute_def Let_def inv_fetch inv_setSnackbar inv_send split: reply.splits)

lemma inv_deleteTrackedRoute:
  "passenger_inv st \<Longrightarrow> passenger_inv (deleteTrackedRoute r1 r2 i st)"
  by (simp add: deleteTrackedRoute_def Let_def inv_fetch inv_setSnackbar inv_send
        split: reply.splits)

lemma inv_comparePrices: "passenger_inv st \<Longrightarrow> passenger_inv (comparePrices r st)"
  by (simp add: comparePrices_def Let_def passenger_inv_def split: reply.splits)

lemma inv_pickup: "passenger_inv st \<Longrightarrow> passenger_inv (pickup_onInputChange r v st)"
  by (simp add: pickup_onInputChange_def Let_def passenger_inv_def split: reply.splits)

lemma inv_dropoff: "passenger_inv st \<Longrightarrow> passenger_inv (dropoff_onInputChange r v st)"
  by (simp add: dropoff_onInputChange_def Let_def passenger_inv_def split: reply.splits)

lemma inv_passenger: "passenger_inv st \<Longrightarrow> passenger_inv (passengerCount_onChange v st)"
  by (simp add: passengerCount_onChange_def passenger_inv_def)

text \<open>Every handler keeps the invariant, so every reachable state has it.\<close>

lemma reachable_inv: "reachable st \<Longrightarrow> passenger_inv st"
proof (induction rule: reachable.induct)
  case init
  show ?case by (simp add: passenger_inv_def initial_state_def)
next
  case (tab st t)
  then show ?case by (simp add: passenger_inv_def)
next
  case (close st)
  then show ?case by (simp add: passenger_inv_def handleSnackbarClose_def)
next
  case (phone_input st rr v)
  then show ?case
    by (simp add: phoneNumber_onChange_def inv_effect inv_phoneNumber_update)
next
  case (target_input st n v)
  then show ?case by (simp add: passenger_inv_def targetPrice_onChange_def)
next
  case (toggle st rr)
  then show ?case by (simp add: toggleTrackedRoutes_def inv_effect inv_show_update)
qed (simp_all add: inv_pickup inv_dropoff inv_passenger inv_comparePrices inv_trackRoute
       inv_deleteTrackedRoute)

lemma in_range_member:
  "compare_bodies_in_range rqs \<Longrightarrow> POST_compare_prices b \<in> set rqs
     \<Longrightarrow> 1 \<le> passenger_count b \<and> passenger_count b \<le> 7"
  by (auto simp: compare_bodies_in_range_def list_all_iff)

lemma clamp_or_one:
  "max 1 (min 7 (or_one v)) = min 7 (max 1 (case v of None \<Rightarrow> 1 | Some n \<Rightarrow> n))"
  by (cases v) (auto simp: or_one_def)

lemma parseInt_empty: "parseInt [] = None"
  by (simp add: parseInt_def)

text \<open>
  C9: for every string \<open>s\<close> entered in the passenger field the stored count becomes
  \<open>min 7 (max 1 (parseInt s))\<close>, an input that does not parse and the empty input
  giving 1; so in every reachable state the count is an integer from 1 to 7, and so
  is the \<open>passenger_count\<close> of every compare-prices body that has been sent.
\<close>

theorem passenger_count_clamped:
  "passengerCount (passengerCount_onChange s st)
     = min 7 (max 1 (case parseInt s of None \<Rightarrow> 1 | Some n \<Rightarrow> n))
   \<and> (parseInt s = None \<longrightarrow> passengerCount (passengerCount_onChange s st) = 1)
   \<and> passengerCount (passengerCount_onChange [] st) = 1
   \<and> (reachable st \<longrightarrow>
        1 \<le> passengerCount st \<and> passengerCount st \<le> 7
        \<and> (\<forall>b. POST_compare_prices b \<in> set (requests st) \<longrightarrow>
              1 \<le> passenger_count b \<and> passenger_count b \<le> 7))"
proof -
  have "passengerCount (passengerCount_onChange s st)
          = min 7 (max 1 (case parseInt s of None \<Rightarrow> 1 | Some n \<Rightarrow> n))" for s
    by (simp add: passengerCount_onChange_def clamp_or_one)
  moreover have "reachable st \<longrightarrow>
        1 \<le> passengerCount st \<and> passengerCount st \<le> 7
        \<and> (\<forall>b. POST_compare_prices b \<in> set (requests st) \<longrightarrow>
              1 \<le> passenger_count b \<and> passenger_count b \<le> 7)"
    using reachable_inv [of st] in_range_member [of "requests st"]
    by (auto simp: passenger_inv_def)
  ultimately show ?thesis
    by (simp add: parseInt_empty)
qed

lemma parseInt_examples: "parseInt ''9'' = Some 9" "parseInt ''abc'' = None"
  by code_simp+

lemma reachable_example_session: "reachable example_session"
  unfolding example_session_def
  by (intro reachable.compare reachable.passenger_input reachable.dropoff_input
        reachable.pickup_input reachable.init)
     (simp_all add: initial_state_def pickup_onInputChange_def dropoff_onInputChange_def
        passengerCount_onChange_def send_def console_error_def)

theorem passenger_count_clamped_witness:
  "reachable example_session
   \<and> parseInt ''abc'' = None
   \<and> passengerCount (passengerCount_onChange ''abc'' example_session) = 1
   \<and> 1 \<le> passengerCount example_session \<and> passengerCount example_session \<le> 7
   \<and> POST_compare_prices
        \<lparr> pickup_address = ''Manhattan'', dropoff_address = ''Brooklyn'', passenger_count = 7 \<rparr>
        \<in> set (requests example_session)"
proof -
  have m: "POST_compare_prices
        \<lparr> pickup_address = ''Manhattan'', dropoff_address = ''Brooklyn'', passenger_count = 7 \<rparr>
        \<in> set (requests example_session)"
    by (simp add: example_session_def initial_state_def pickup_onInputChange_def
          dropoff_onInputChange_def passengerCount_onChange_def comparePrices_def Let_def
          send_def console_error_def parseInt_examples or_one_def)
  show ?thesis
    using passenger_count_clamped [of "''abc''" example_session]
      reachable_example_session parseInt_examples(2) m
    by simp
qed

end
